theory Spec2Isabelle
  imports Main "HOL-Library.Word"
begin

unbundle bit_operations_syntax

section \<open>The i.MX8MP DWC3 glue layer: wakeup control and suspend/resume\<close>

text \<open>
  A shallow embedding of \<^verbatim>\<open>drivers/usb/dwc3/dwc3-imx8mp.c\<close>: the two register
  routines \<^verbatim>\<open>dwc_imx8mp_wakeup_enable\<close> and \<^verbatim>\<open>dwc_imx8mp_wakeup_disable\<close>, the
  threaded interrupt handler, the core suspend and resume routines and their four
  power-management entry points.

  The driver mutates a \<^verbatim>\<open>struct dwc3_imx8mp\<close> and talks to the register bank, the clock
  framework and the runtime-PM core. The model passes the structure explicitly and
  records every call that leaves the driver in a chronological list, so that
  "no call was made" and "this call came first" are statements about that list.
\<close>

subsection \<open>Machine words and the kernel's bit macros\<close>

type_synonym u32 = "32 word"

text \<open>
  Modelled from the spec: \<^verbatim>\<open>BIT\<close> and \<^verbatim>\<open>GENMASK\<close> come from \<^verbatim>\<open>linux/bits.h\<close>,
  which is not among the sources. \<^verbatim>\<open>BIT(n)\<close> is the word with only bit \<open>n\<close> set and
  \<^verbatim>\<open>GENMASK(h, l)\<close> the word with bits \<open>l\<close> to \<open>h\<close> set. The kernel computes them as
  \<^verbatim>\<open>unsigned long\<close>; the driver only ever combines them with a \<^verbatim>\<open>u32\<close> and stores
  the result in a \<^verbatim>\<open>u32\<close>, so they are taken at 32 bits here.
\<close>

definition BIT :: "nat \<Rightarrow> u32" where
  "BIT n = push_bit n 1"

definition GENMASK :: "nat \<Rightarrow> nat \<Rightarrow> u32" where
  "GENMASK h l = push_bit l (mask (Suc h - l))"

subsection \<open>USB wakeup registers\<close>

definition USB_WAKEUP_CTRL :: u32 where
  "USB_WAKEUP_CTRL = 0x00"

definition USB_WAKEUP_STATUS :: u32 where
  "USB_WAKEUP_STATUS = 0x04"

text \<open>Global wakeup interrupt enable, also used to clear interrupt.\<close>

definition USB_WAKEUP_EN :: u32 where
  "USB_WAKEUP_EN = BIT 31"

text \<open>Wakeup from connection or disconnection, only for superspeed.\<close>

definition USB_WAKEUP_SS_CONN :: u32 where
  "USB_WAKEUP_SS_CONN = BIT 5"

text \<open>0 selects vbus_valid, 1 selects sessvld.\<close>

definition USB_WAKEUP_VBUS_SRC_SESS_VAL :: u32 where
  "USB_WAKEUP_VBUS_SRC_SESS_VAL = BIT 4"

text \<open>Enable signals for wakeup from the U3 state, from an id change, from a vbus
  change and from a dp/dm change.\<close>

definition USB_WAKEUP_U3_EN :: u32 where
  "USB_WAKEUP_U3_EN = BIT 3"

definition USB_WAKEUP_ID_EN :: u32 where
  "USB_WAKEUP_ID_EN = BIT 2"

definition USB_WAKEUP_VBUS_EN :: u32 where
  "USB_WAKEUP_VBUS_EN = BIT 1"

definition USB_WAKEUP_DPDM_EN :: u32 where
  "USB_WAKEUP_DPDM_EN = BIT 0"

definition USB_WAKEUP_EN_MASK :: u32 where
  "USB_WAKEUP_EN_MASK = GENMASK 5 0"

subsection \<open>The controller core and its role\<close>

text \<open>
  Modelled from the spec: \<^verbatim>\<open>core.h\<close>, which declares \<^verbatim>\<open>struct dwc3\<close> and the
  \<^verbatim>\<open>DWC3_GCTL_PRTCAP_*\<close> role codes, is not among the sources. The spec says the child
  reports a role in \<open>{Host, Device, None}\<close>; the driver compares the \<^verbatim>\<open>u32\<close> field
  \<^verbatim>\<open>current_dr_role\<close> with the two codes below, so every other value of the field is
  the role None. The codes are those of the DWC3 GCTL port-capability field (host 1,
  device 2); the driver depends only on their being different.
\<close>

definition DWC3_GCTL_PRTCAP_HOST :: u32 where
  "DWC3_GCTL_PRTCAP_HOST = 1"

definition DWC3_GCTL_PRTCAP_DEVICE :: u32 where
  "DWC3_GCTL_PRTCAP_DEVICE = 2"

text \<open>
  The two fields of \<^verbatim>\<open>struct dwc3\<close> the driver reads. \<open>xhci\<close> is a pointer to the
  host child device in C and the driver only tests it against NULL: \<open>xhci d\<close> holds
  when the pointer is not NULL.
\<close>

record dwc3 =
  xhci :: bool
  current_dr_role :: u32

subsection \<open>Devices, clocks and power-management messages\<close>

text \<open>
  Modelled from the spec: the driver model's \<^verbatim>\<open>device_may_wakeup\<close> (the spec's
  \<open>deviceMayWakeup() -> bool\<close>) is not among the sources. A device carries the answer
  as a flag.
\<close>

record device =
  may_wakeup :: bool

definition device_may_wakeup :: "device \<Rightarrow> bool" where
  "device_may_wakeup d = may_wakeup d"

text \<open>
  Modelled from the spec: the clock framework is not among the sources. The spec gives
  a clock handle \<open>enable() -> Result\<close> and \<open>disable()\<close>. A clock is running or not;
  whether an enable succeeds is decided outside the driver, so the result code the
  framework will return (0, or a negative errno) is an argument: on 0 the clock runs,
  otherwise it is left as it was and the code is handed back.
\<close>

record clk =
  enabled :: bool

definition clk_prepare_enable :: "int \<Rightarrow> clk \<Rightarrow> int \<times> clk" where
  "clk_prepare_enable rc c = (if rc = 0 then (0, c\<lparr>enabled := True\<rparr>) else (rc, c))"

definition clk_disable_unprepare :: "clk \<Rightarrow> clk" where
  "clk_disable_unprepare c = c\<lparr>enabled := False\<rparr>"

text \<open>
  Modelled from the spec: \<^verbatim>\<open>pm_message_t\<close> and \<^verbatim>\<open>PMSG_IS_AUTO\<close> come from
  \<^verbatim>\<open>linux/pm.h\<close>, not among the sources. A message carries an event code; the
  autonomous-idle messages are those with the \<^verbatim>\<open>PM_EVENT_AUTO\<close> bit (0x0400).
\<close>

record pm_message_t =
  event :: u32

definition PM_EVENT_AUTO :: u32 where
  "PM_EVENT_AUTO = 0x0400"

definition PMSG_SUSPEND :: pm_message_t where
  "PMSG_SUSPEND = \<lparr>event = 0x0002\<rparr>"

definition PMSG_RESUME :: pm_message_t where
  "PMSG_RESUME = \<lparr>event = 0x0010\<rparr>"

definition PMSG_AUTO_SUSPEND :: pm_message_t where
  "PMSG_AUTO_SUSPEND = \<lparr>event = 0x0402\<rparr>"

definition PMSG_AUTO_RESUME :: pm_message_t where
  "PMSG_AUTO_RESUME = \<lparr>event = 0x0410\<rparr>"

definition PMSG_IS_AUTO :: "pm_message_t \<Rightarrow> bool" where
  "PMSG_IS_AUTO msg = (event msg AND PM_EVENT_AUTO \<noteq> 0)"

subsection \<open>Calls that leave the driver\<close>

text \<open>
  The device a runtime resume is requested for: the host child
  (\<^verbatim>\<open>&dwc->xhci->dev\<close>) or the controller itself (\<^verbatim>\<open>dwc->dev\<close>), which carries the
  peripheral stack.
\<close>

datatype resume_target = Xhci_dev | Dwc_dev

datatype call =
    Readl u32
  | Writel u32 u32
  | Clk_prepare_enable
  | Clk_disable_unprepare
  | Pm_runtime_resume resume_target
  | Enable_irq_wake int
  | Disable_irq_wake int
  | Pm_runtime_disable
  | Pm_runtime_set_active
  | Pm_runtime_enable

datatype irqreturn_t = IRQ_NONE | IRQ_HANDLED | IRQ_WAKE_THREAD

subsection \<open>The glue instance\<close>

text \<open>
  \<^verbatim>\<open>struct dwc3_imx8mp\<close>, field by field. \<open>glue_base\<close> is the mapped register bank,
  a function from byte offset to the 32-bit register there; a register is plain storage
  (a read returns what was last written). \<open>dwc3\<close> stands for the driver data of the
  child platform device, which \<^verbatim>\<open>platform_get_drvdata\<close> returns. \<open>calls\<close> is not a
  field of the C structure: it is the chronological list of the calls made so far.
\<close>

record dwc3_imx8mp =
  dev :: device
  dwc3 :: dwc3
  glue_base :: "u32 \<Rightarrow> u32"
  bus_clk :: clk
  sleep_clk :: clk
  irq :: int
  pm_suspended :: bool
  calls :: "call list"

definition readl :: "u32 \<Rightarrow> dwc3_imx8mp \<Rightarrow> u32 \<times> dwc3_imx8mp" where
  "readl off s = (glue_base s off, s\<lparr>calls := calls s @ [Readl off]\<rparr>)"

definition writel :: "u32 \<Rightarrow> u32 \<Rightarrow> dwc3_imx8mp \<Rightarrow> dwc3_imx8mp" where
  "writel val off s =
     s\<lparr>glue_base := (glue_base s)(off := val), calls := calls s @ [Writel off val]\<rparr>"

subsection \<open>Arming and disarming the wakeup source\<close>

definition dwc_imx8mp_wakeup_enable :: "dwc3_imx8mp \<Rightarrow> dwc3_imx8mp" where
  "dwc_imx8mp_wakeup_enable dwc_imx =
     (let dwc = dwc3 dwc_imx;
          (val, s1) = readl USB_WAKEUP_CTRL dwc_imx;
          val' =
            (if xhci dwc then
               val OR (USB_WAKEUP_EN OR USB_WAKEUP_SS_CONN OR
                       USB_WAKEUP_U3_EN OR USB_WAKEUP_DPDM_EN)
             else if current_dr_role dwc = DWC3_GCTL_PRTCAP_DEVICE then
               val OR (USB_WAKEUP_EN OR USB_WAKEUP_VBUS_EN OR
                       USB_WAKEUP_VBUS_SRC_SESS_VAL)
             else val)
      in writel val' USB_WAKEUP_CTRL s1)"

definition dwc_imx8mp_wakeup_disable :: "dwc3_imx8mp \<Rightarrow> dwc3_imx8mp" where
  "dwc_imx8mp_wakeup_disable dwc_imx =
     (let (val, s1) = readl USB_WAKEUP_CTRL dwc_imx;
          val' = val AND NOT (USB_WAKEUP_EN OR USB_WAKEUP_EN_MASK)
      in writel val' USB_WAKEUP_CTRL s1)"

subsection \<open>The wakeup interrupt\<close>

text \<open>
  A runtime resume request is handed to the PM core, which is outside the driver: the
  handler does not wait for what the core does with it, so the request is recorded and
  nothing else changes. The handler's first parameter is \<^verbatim>\<open>irq\<close> in C; it is
  \<open>irqno\<close> here, \<open>irq\<close> being the field of the instance. The handler does not
  read it.
\<close>

definition pm_runtime_resume :: "resume_target \<Rightarrow> dwc3_imx8mp \<Rightarrow> dwc3_imx8mp" where
  "pm_runtime_resume t s = s\<lparr>calls := calls s @ [Pm_runtime_resume t]\<rparr>"

definition dwc3_imx8mp_interrupt :: "int \<Rightarrow> dwc3_imx8mp \<Rightarrow> irqreturn_t \<times> dwc3_imx8mp" where
  "dwc3_imx8mp_interrupt irqno dwc_imx =
     (let dwc = dwc3 dwc_imx in
      if \<not> pm_suspended dwc_imx then (IRQ_HANDLED, dwc_imx)
      else
        let s1 = dwc_imx8mp_wakeup_disable dwc_imx;
            s2 =
              (if current_dr_role dwc = DWC3_GCTL_PRTCAP_HOST \<and> xhci dwc then
                 pm_runtime_resume Xhci_dev s1
               else if current_dr_role dwc = DWC3_GCTL_PRTCAP_DEVICE then
                 pm_runtime_resume Dwc_dev s1
               else s1)
        in (IRQ_HANDLED, s2))"

subsection \<open>Suspend and resume\<close>

definition dwc3_imx8mp_suspend :: "dwc3_imx8mp \<Rightarrow> pm_message_t \<Rightarrow> int \<times> dwc3_imx8mp" where
  "dwc3_imx8mp_suspend dwc msg =
     (if pm_suspended dwc then (0, dwc)
      else
        let s1 = (if PMSG_IS_AUTO msg \<or> device_may_wakeup (dev dwc)
                  then dwc_imx8mp_wakeup_enable dwc else dwc);
            s2 = s1\<lparr>bus_clk := clk_disable_unprepare (bus_clk s1),
                     calls := calls s1 @ [Clk_disable_unprepare]\<rparr>;
            s3 = s2\<lparr>pm_suspended := True\<rparr>
        in (0, s3))"

text \<open>
  The first argument is the result code the clock framework gives to the one
  \<^verbatim>\<open>clk_prepare_enable(dwc->bus_clk)\<close> call of the routine.
\<close>

definition dwc3_imx8mp_resume :: "int \<Rightarrow> dwc3_imx8mp \<Rightarrow> pm_message_t \<Rightarrow> int \<times> dwc3_imx8mp" where
  "dwc3_imx8mp_resume rc dwc msg =
     (if \<not> pm_suspended dwc then (0, dwc)
      else
        let s1 = dwc\<lparr>pm_suspended := False\<rparr>;
            (ret, c) = clk_prepare_enable rc (bus_clk s1);
            s2 = s1\<lparr>bus_clk := c, calls := calls s1 @ [Clk_prepare_enable]\<rparr>;
            s3 = dwc_imx8mp_wakeup_disable s2
        in (ret, s3))"

definition dwc3_imx8mp_pm_suspend :: "dwc3_imx8mp \<Rightarrow> int \<times> dwc3_imx8mp" where
  "dwc3_imx8mp_pm_suspend dwc_imx =
     (let s1 = (if device_may_wakeup (dev dwc_imx)
                then dwc_imx\<lparr>calls := calls dwc_imx @ [Enable_irq_wake (irq dwc_imx)]\<rparr>
                else dwc_imx)
      in dwc3_imx8mp_suspend s1 PMSG_SUSPEND)"

definition dwc3_imx8mp_pm_resume :: "int \<Rightarrow> dwc3_imx8mp \<Rightarrow> int \<times> dwc3_imx8mp" where
  "dwc3_imx8mp_pm_resume rc dwc_imx =
     (let s1 = (if device_may_wakeup (dev dwc_imx)
                then dwc_imx\<lparr>calls := calls dwc_imx @ [Disable_irq_wake (irq dwc_imx)]\<rparr>
                else dwc_imx);
          (ret, s2) = dwc3_imx8mp_resume rc s1 PMSG_RESUME;
          s3 = s2\<lparr>calls := calls s2 @
                 [Pm_runtime_disable, Pm_runtime_set_active, Pm_runtime_enable]\<rparr>
      in (ret, s3))"

definition dwc3_imx8mp_runtime_suspend :: "dwc3_imx8mp \<Rightarrow> int \<times> dwc3_imx8mp" where
  "dwc3_imx8mp_runtime_suspend dwc_imx = dwc3_imx8mp_suspend dwc_imx PMSG_AUTO_SUSPEND"

definition dwc3_imx8mp_runtime_resume :: "int \<Rightarrow> dwc3_imx8mp \<Rightarrow> int \<times> dwc3_imx8mp" where
  "dwc3_imx8mp_runtime_resume rc dwc_imx = dwc3_imx8mp_resume rc dwc_imx PMSG_AUTO_RESUME"

subsection \<open>Reading the control register; sequences of arm and disarm\<close>

abbreviation wakeup_ctrl :: "dwc3_imx8mp \<Rightarrow> u32" where
  "wakeup_ctrl s \<equiv> glue_base s USB_WAKEUP_CTRL"

text \<open>
  A sequence of wakeup operations on one instance. Between two operations the child
  controller may have switched role, so \<open>Arm d\<close> arms with the child in state \<open>d\<close>
  (any combination of host child and role code); \<open>Disarm\<close> disarms.
\<close>

datatype wakeup_op = Arm dwc3 | Disarm

fun wakeup_step :: "dwc3_imx8mp \<Rightarrow> wakeup_op \<Rightarrow> dwc3_imx8mp" where
  "wakeup_step s (Arm d) = dwc_imx8mp_wakeup_enable (s\<lparr>dwc3 := d\<rparr>)"
| "wakeup_step s Disarm = dwc_imx8mp_wakeup_disable s"

definition wakeup_run :: "dwc3_imx8mp \<Rightarrow> wakeup_op list \<Rightarrow> dwc3_imx8mp" where
  "wakeup_run s ops = foldl wakeup_step s ops"

subsection \<open>Sample instances\<close>

text \<open>
  An active instance in device role with no host child, wake-capable, its register
  bank all zero and both clocks running; the same instance after a system-sleep
  suspend; and three states of the child controller: host role with its host child,
  no role at all, and device role while a host child handle still exists.
\<close>

definition active_device :: dwc3_imx8mp where
  "active_device =
     \<lparr>dev = \<lparr>may_wakeup = True\<rparr>,
      dwc3 = \<lparr>xhci = False, current_dr_role = DWC3_GCTL_PRTCAP_DEVICE\<rparr>,
      glue_base = (\<lambda>_. 0),
      bus_clk = \<lparr>enabled = True\<rparr>,
      sleep_clk = \<lparr>enabled = True\<rparr>,
      irq = 32,
      pm_suspended = False,
      calls = []\<rparr>"

definition suspended_device :: dwc3_imx8mp where
  "suspended_device = snd (dwc3_imx8mp_suspend active_device PMSG_SUSPEND)"

definition host_role :: dwc3 where
  "host_role = \<lparr>xhci = True, current_dr_role = DWC3_GCTL_PRTCAP_HOST\<rparr>"

definition none_role :: dwc3 where
  "none_role = \<lparr>xhci = False, current_dr_role = 0\<rparr>"

definition device_role_host_child :: dwc3 where
  "device_role_host_child = \<lparr>xhci = True, current_dr_role = DWC3_GCTL_PRTCAP_DEVICE\<rparr>"

text \<open>Host role while no host child handle exists, as in the middle of a role switch.\<close>

definition host_role_no_child :: dwc3 where
  "host_role_no_child = \<lparr>xhci = False, current_dr_role = DWC3_GCTL_PRTCAP_HOST\<rparr>"

section \<open>Basic facts\<close>

subsection \<open>The register layout\<close>

lemma wakeup_bit_values:
  "USB_WAKEUP_EN = 0x80000000" "USB_WAKEUP_SS_CONN = 0x20"
  "USB_WAKEUP_VBUS_SRC_SESS_VAL = 0x10" "USB_WAKEUP_U3_EN = 0x08"
  "USB_WAKEUP_ID_EN = 0x04" "USB_WAKEUP_VBUS_EN = 0x02" "USB_WAKEUP_DPDM_EN = 0x01"
  "USB_WAKEUP_EN_MASK = 0x3F"
  by (simp_all add: USB_WAKEUP_EN_def USB_WAKEUP_SS_CONN_def
      USB_WAKEUP_VBUS_SRC_SESS_VAL_def USB_WAKEUP_U3_EN_def USB_WAKEUP_ID_EN_def
      USB_WAKEUP_VBUS_EN_def USB_WAKEUP_DPDM_EN_def USB_WAKEUP_EN_MASK_def
      BIT_def GENMASK_def mask_numeral)

lemma host_bits_cleared:
  "(USB_WAKEUP_EN OR USB_WAKEUP_SS_CONN OR USB_WAKEUP_U3_EN OR USB_WAKEUP_DPDM_EN)
     AND NOT (USB_WAKEUP_EN OR USB_WAKEUP_EN_MASK) = 0"
  by (simp add: wakeup_bit_values)

lemma device_bits_cleared:
  "(USB_WAKEUP_EN OR USB_WAKEUP_VBUS_EN OR USB_WAKEUP_VBUS_SRC_SESS_VAL)
     AND NOT (USB_WAKEUP_EN OR USB_WAKEUP_EN_MASK) = 0"
  by (simp add: wakeup_bit_values)

lemma or_and_absorb: "m AND k = 0 \<Longrightarrow> (r OR m) AND k = r AND (k::u32)"
  by (simp add: bit.conj_disj_distrib2)


subsection \<open>What arm and disarm do to the instance\<close>

lemma wakeup_ctrl_enable:
  "wakeup_ctrl (dwc_imx8mp_wakeup_enable s) =
     (if xhci (dwc3 s) then
        wakeup_ctrl s OR
          (USB_WAKEUP_EN OR USB_WAKEUP_SS_CONN OR USB_WAKEUP_U3_EN OR USB_WAKEUP_DPDM_EN)
      else if current_dr_role (dwc3 s) = DWC3_GCTL_PRTCAP_DEVICE then
        wakeup_ctrl s OR
          (USB_WAKEUP_EN OR USB_WAKEUP_VBUS_EN OR USB_WAKEUP_VBUS_SRC_SESS_VAL)
      else wakeup_ctrl s)"
  by (simp add: dwc_imx8mp_wakeup_enable_def readl_def writel_def Let_def)

lemma wakeup_ctrl_disable:
  "wakeup_ctrl (dwc_imx8mp_wakeup_disable s) =
     wakeup_ctrl s AND NOT (USB_WAKEUP_EN OR USB_WAKEUP_EN_MASK)"
  by (simp add: dwc_imx8mp_wakeup_disable_def readl_def writel_def Let_def)

lemma calls_disable:
  "calls (dwc_imx8mp_wakeup_disable s) =
     calls s @ [Readl USB_WAKEUP_CTRL,
                Writel USB_WAKEUP_CTRL
                  (wakeup_ctrl s AND NOT (USB_WAKEUP_EN OR USB_WAKEUP_EN_MASK))]"
  by (simp add: dwc_imx8mp_wakeup_disable_def readl_def writel_def Let_def)

lemma pm_suspended_disable:
  "pm_suspended (dwc_imx8mp_wakeup_disable s) = pm_suspended s"
  by (simp add: dwc_imx8mp_wakeup_disable_def readl_def writel_def Let_def)

lemma suspend_sets_flag: "pm_suspended (snd (dwc3_imx8mp_suspend s msg))"
  by (simp add: dwc3_imx8mp_suspend_def Let_def)

lemmas sample_defs = active_device_def suspended_device_def host_role_def none_role_def
  device_role_host_child_def host_role_no_child_def
  DWC3_GCTL_PRTCAP_HOST_def DWC3_GCTL_PRTCAP_DEVICE_def

lemmas run_defs = dwc3_imx8mp_suspend_def dwc3_imx8mp_resume_def dwc3_imx8mp_interrupt_def
  dwc_imx8mp_wakeup_enable_def dwc_imx8mp_wakeup_disable_def readl_def writel_def
  pm_runtime_resume_def clk_prepare_enable_def clk_disable_unprepare_def
  device_may_wakeup_def PMSG_IS_AUTO_def PMSG_SUSPEND_def PMSG_RESUME_def
  PMSG_AUTO_SUSPEND_def PMSG_AUTO_RESUME_def PM_EVENT_AUTO_def USB_WAKEUP_CTRL_def Let_def

section \<open>The wakeup source configurator\<close>

subsection \<open>Claim C1: the bits that arming sets\<close>




subsection \<open>Claim C5: arm, then disarm\<close>

text \<open>
  Claim C5 as stated says that arming and then disarming leaves the register all zero
  whatever it held before. Disarming clears bit 31 and bits 5 to 0 and writes the other
  bits back as read. Here bit 6 is set before; it is still set afterwards.
\<close>

theorem arm_disarm_all_zero_counterexample:
  "wakeup_ctrl (dwc_imx8mp_wakeup_disable (dwc_imx8mp_wakeup_enable
      (active_device\<lparr>glue_base := (\<lambda>_. 0)(USB_WAKEUP_CTRL := BIT 6)\<rparr>))) \<noteq> 0"
  by (simp add: wakeup_ctrl_enable wakeup_ctrl_disable active_device_def
      wakeup_bit_values BIT_def DWC3_GCTL_PRTCAP_DEVICE_def)

text \<open>
  Claim C5, amended: for every state of the child (host child or not, any role code) and
  every prior content of the control register, arming immediately followed by disarming
  leaves the register equal to its prior content with the global enable bit and the six
  source bits cleared; the result is the all-zero image exactly when the prior content
  had no bit set outside those seven.
\<close>

theorem arm_disarm_clears_wakeup_bits:
  "wakeup_ctrl (dwc_imx8mp_wakeup_disable (dwc_imx8mp_wakeup_enable s)) =
     wakeup_ctrl s AND NOT (USB_WAKEUP_EN OR USB_WAKEUP_EN_MASK) \<and>
   (wakeup_ctrl (dwc_imx8mp_wakeup_disable (dwc_imx8mp_wakeup_enable s)) = 0 \<longleftrightarrow>
      wakeup_ctrl s AND NOT (USB_WAKEUP_EN OR USB_WAKEUP_EN_MASK) = 0)"
proof -
  let ?k = "NOT (USB_WAKEUP_EN OR USB_WAKEUP_EN_MASK)"
  have "wakeup_ctrl (dwc_imx8mp_wakeup_enable s) AND ?k = wakeup_ctrl s AND ?k"
    by (simp only: wakeup_ctrl_enable or_and_absorb [OF host_bits_cleared]
        or_and_absorb [OF device_bits_cleared] if_distrib [of "\<lambda>x. x AND ?k"] if_cancel)
  then show ?thesis
    by (simp only: wakeup_ctrl_disable simp_thms)
qed

subsection \<open>Claim C6: arming with no role\<close>

text \<open>
  Claim C6 as stated says that arming with no host child and a role other than Device
  performs no write to the control register. The \<^verbatim>\<open>writel\<close> at the end of the
  routine is outside both branches: it is always executed. Here the child has no role;
  arming reads the register and then writes it.
\<close>

theorem arm_none_no_write_counterexample:
  "calls (dwc_imx8mp_wakeup_enable (active_device\<lparr>dwc3 := none_role\<rparr>)) =
     [Readl USB_WAKEUP_CTRL, Writel USB_WAKEUP_CTRL 0]"
  by (simp add: sample_defs dwc_imx8mp_wakeup_enable_def readl_def writel_def)

text \<open>
  Claim C6, amended: arming when no host child handle exists and the current role is not
  Device reads the control register once and writes the value just read back to it, so
  the register content and every field of the instance are unchanged; the routine returns
  nothing and cannot fail.
\<close>

theorem arm_none_writes_back_unchanged:
  "\<not> xhci (dwc3 s) \<Longrightarrow> current_dr_role (dwc3 s) \<noteq> DWC3_GCTL_PRTCAP_DEVICE \<Longrightarrow>
     dwc_imx8mp_wakeup_enable s =
       s\<lparr>calls := calls s @ [Readl USB_WAKEUP_CTRL, Writel USB_WAKEUP_CTRL (wakeup_ctrl s)]\<rparr>"
  by (simp add: dwc_imx8mp_wakeup_enable_def readl_def writel_def)

theorem arm_none_writes_back_unchanged_witness:
  "\<not> xhci (dwc3 (active_device\<lparr>dwc3 := none_role\<rparr>)) \<and>
   current_dr_role (dwc3 (active_device\<lparr>dwc3 := none_role\<rparr>)) \<noteq> DWC3_GCTL_PRTCAP_DEVICE \<and>
   dwc_imx8mp_wakeup_enable (active_device\<lparr>dwc3 := none_role\<rparr>) =
     active_device\<lparr>dwc3 := none_role, calls := [Readl 0, Writel 0 0]\<rparr>"
  using arm_none_writes_back_unchanged [of "active_device\<lparr>dwc3 := none_role\<rparr>"]
  by (simp add: sample_defs USB_WAKEUP_CTRL_def)

subsection \<open>Claim C9: which pattern is chosen\<close>

text \<open>
  Claim C9: when arming, the host pattern (global enable, superspeed connect-change,
  U3-exit, dp/dm-change) is chosen whenever a host child handle exists, whatever the
  current role; the device pattern is chosen only when no host child handle exists and
  the current role is Device. In particular, from the all-zero register the result is
  the host pattern exactly when a host child exists, and the device pattern exactly when
  there is none and the role is Device.
\<close>

theorem wakeup_enable_pattern_by_host_child:
  "wakeup_ctrl (dwc_imx8mp_wakeup_enable s) =
     wakeup_ctrl s OR
       (if xhci (dwc3 s) then
          USB_WAKEUP_EN OR USB_WAKEUP_SS_CONN OR USB_WAKEUP_U3_EN OR USB_WAKEUP_DPDM_EN
        else if current_dr_role (dwc3 s) = DWC3_GCTL_PRTCAP_DEVICE then
          USB_WAKEUP_EN OR USB_WAKEUP_VBUS_EN OR USB_WAKEUP_VBUS_SRC_SESS_VAL
        else 0) \<and>
   (wakeup_ctrl s = 0 \<longrightarrow>
      (wakeup_ctrl (dwc_imx8mp_wakeup_enable s) =
         (USB_WAKEUP_EN OR USB_WAKEUP_SS_CONN OR USB_WAKEUP_U3_EN OR USB_WAKEUP_DPDM_EN)
       \<longleftrightarrow> xhci (dwc3 s)) \<and>
      (wakeup_ctrl (dwc_imx8mp_wakeup_enable s) =
         (USB_WAKEUP_EN OR USB_WAKEUP_VBUS_EN OR USB_WAKEUP_VBUS_SRC_SESS_VAL)
       \<longleftrightarrow> \<not> xhci (dwc3 s) \<and> current_dr_role (dwc3 s) = DWC3_GCTL_PRTCAP_DEVICE))"
proof (intro conjI impI)
  show "wakeup_ctrl (dwc_imx8mp_wakeup_enable s) =
     wakeup_ctrl s OR
       (if xhci (dwc3 s) then
          USB_WAKEUP_EN OR USB_WAKEUP_SS_CONN OR USB_WAKEUP_U3_EN OR USB_WAKEUP_DPDM_EN
        else if current_dr_role (dwc3 s) = DWC3_GCTL_PRTCAP_DEVICE then
          USB_WAKEUP_EN OR USB_WAKEUP_VBUS_EN OR USB_WAKEUP_VBUS_SRC_SESS_VAL
        else 0)"
    by (simp add: wakeup_ctrl_enable)
next
  assume "wakeup_ctrl s = 0"
  then show "wakeup_ctrl (dwc_imx8mp_wakeup_enable s) =
         (USB_WAKEUP_EN OR USB_WAKEUP_SS_CONN OR USB_WAKEUP_U3_EN OR USB_WAKEUP_DPDM_EN)
       \<longleftrightarrow> xhci (dwc3 s)"
    by (simp add: wakeup_ctrl_enable wakeup_bit_values)
next
  assume "wakeup_ctrl s = 0"
  then show "wakeup_ctrl (dwc_imx8mp_wakeup_enable s) =
         (USB_WAKEUP_EN OR USB_WAKEUP_VBUS_EN OR USB_WAKEUP_VBUS_SRC_SESS_VAL)
       \<longleftrightarrow> \<not> xhci (dwc3 s) \<and> current_dr_role (dwc3 s) = DWC3_GCTL_PRTCAP_DEVICE"
    by (simp add: wakeup_ctrl_enable wakeup_bit_values)
qed

theorem wakeup_enable_pattern_by_host_child_witness:
  "wakeup_ctrl (active_device\<lparr>dwc3 := device_role_host_child\<rparr>) = 0 \<and>
   xhci (dwc3 (active_device\<lparr>dwc3 := device_role_host_child\<rparr>)) \<and>
   current_dr_role (dwc3 (active_device\<lparr>dwc3 := device_role_host_child\<rparr>)) =
     DWC3_GCTL_PRTCAP_DEVICE \<and>
   wakeup_ctrl (dwc_imx8mp_wakeup_enable (active_device\<lparr>dwc3 := device_role_host_child\<rparr>)) =
     (USB_WAKEUP_EN OR USB_WAKEUP_SS_CONN OR USB_WAKEUP_U3_EN OR USB_WAKEUP_DPDM_EN) \<and>
   wakeup_ctrl (dwc_imx8mp_wakeup_enable (active_device\<lparr>dwc3 := device_role_host_child\<rparr>)) \<noteq>
     (USB_WAKEUP_EN OR USB_WAKEUP_VBUS_EN OR USB_WAKEUP_VBUS_SRC_SESS_VAL)"
  using wakeup_enable_pattern_by_host_child [of "active_device\<lparr>dwc3 := device_role_host_child\<rparr>"]
  by (simp add: sample_defs wakeup_bit_values)

subsection \<open>Claim C7: the global enable bit covers the source bits\<close>

lemma wakeup_step_reach:
  assumes "wakeup_ctrl s \<in> {0, 0x80000029, 0x80000012, 0x8000003B}"
  shows "wakeup_ctrl (wakeup_step s op) \<in> {0, 0x80000029, 0x80000012, 0x8000003B}"
proof -
  from assms consider "wakeup_ctrl s = 0" | "wakeup_ctrl s = 0x80000029"
    | "wakeup_ctrl s = 0x80000012" | "wakeup_ctrl s = 0x8000003B"
    by auto
  then show ?thesis
  proof cases
    case 1
    then show ?thesis
      by (cases op) (simp_all add: wakeup_ctrl_enable wakeup_ctrl_disable wakeup_bit_values)
  next
    case 2
    then show ?thesis
      by (cases op) (simp_all add: wakeup_ctrl_enable wakeup_ctrl_disable wakeup_bit_values)
  next
    case 3
    then show ?thesis
      by (cases op) (simp_all add: wakeup_ctrl_enable wakeup_ctrl_disable wakeup_bit_values)
  next
    case 4
    then show ?thesis
      by (cases op) (simp_all add: wakeup_ctrl_enable wakeup_ctrl_disable wakeup_bit_values)
  qed
qed

lemma wakeup_run_reach:
  "wakeup_ctrl s \<in> {0, 0x80000029, 0x80000012, 0x8000003B} \<Longrightarrow>
   wakeup_ctrl (wakeup_run s ops) \<in> {0, 0x80000029, 0x80000012, 0x8000003B}"
  unfolding wakeup_run_def
proof (induction ops arbitrary: s)
  case Nil
  then show ?case by simp
next
  case (Cons op ops)
  from Cons.prems
  have "wakeup_ctrl (wakeup_step s op) \<in> {0, 0x80000029, 0x80000012, 0x8000003B}"
    by (rule wakeup_step_reach)
  then show ?case
    using Cons.IH [of "wakeup_step s op"] by simp
qed

text \<open>
  Claim C7: in every state of the control register reached from the all-zero image by
  any sequence of arm (in any state of the child) and disarm operations, the global
  enable bit is set whenever any wakeup source bit is set; and disarming there, which
  clears the global enable bit, leaves all source bits clear as well.
\<close>

theorem wakeup_ctrl_invariant:
  assumes "wakeup_ctrl s = 0"
  shows "(wakeup_ctrl (wakeup_run s ops) AND USB_WAKEUP_EN_MASK \<noteq> 0 \<longrightarrow>
            wakeup_ctrl (wakeup_run s ops) AND USB_WAKEUP_EN \<noteq> 0) \<and>
         wakeup_ctrl (dwc_imx8mp_wakeup_disable (wakeup_run s ops)) AND
            (USB_WAKEUP_EN OR USB_WAKEUP_EN_MASK) = 0"
proof -
  from assms
  have "wakeup_ctrl (wakeup_run s ops) \<in> {0, 0x80000029, 0x80000012, 0x8000003B}"
    by (intro wakeup_run_reach) simp
  then consider "wakeup_ctrl (wakeup_run s ops) = 0"
    | "wakeup_ctrl (wakeup_run s ops) = 0x80000029"
    | "wakeup_ctrl (wakeup_run s ops) = 0x80000012"
    | "wakeup_ctrl (wakeup_run s ops) = 0x8000003B"
    by auto
  then show ?thesis
    by cases (simp_all add: wakeup_ctrl_disable wakeup_bit_values)
qed

theorem wakeup_ctrl_invariant_witness:
  "wakeup_ctrl active_device = 0 \<and>
   wakeup_ctrl (wakeup_run active_device [Arm host_role, Arm none_role]) AND
      USB_WAKEUP_EN_MASK \<noteq> 0 \<and>
   wakeup_ctrl (wakeup_run active_device [Arm host_role, Arm none_role]) AND
      USB_WAKEUP_EN \<noteq> 0 \<and>
   wakeup_ctrl (dwc_imx8mp_wakeup_disable
      (wakeup_run active_device [Arm host_role, Arm none_role])) AND
      (USB_WAKEUP_EN OR USB_WAKEUP_EN_MASK) = 0"
  using wakeup_ctrl_invariant [of active_device "[Arm host_role, Arm none_role]"]
  by (simp add: sample_defs wakeup_run_def wakeup_ctrl_enable wakeup_bit_values)

section \<open>The wakeup event dispatcher\<close>

text \<open>
  Claim C2: for every interrupt delivered while the suspended flag is true, the handler
  first disarms the wakeup source, whatever the role (one read and one write of the
  control register, clearing the global enable bit and the source bits), and then issues
  exactly one resume request: for the host child if the role is Host and a host child
  handle exists, for the controller device (the peripheral stack) if the role is Device;
  it issues none if the role is neither, or is Host with no host child handle. Nothing
  else of the instance changes.
\<close>

theorem interrupt_suspended_disarms_then_resumes:
  assumes "pm_suspended s"
  shows "fst (dwc3_imx8mp_interrupt irqno s) = IRQ_HANDLED \<and>
         calls (snd (dwc3_imx8mp_interrupt irqno s)) =
           calls s @
           [Readl USB_WAKEUP_CTRL,
            Writel USB_WAKEUP_CTRL
              (wakeup_ctrl s AND NOT (USB_WAKEUP_EN OR USB_WAKEUP_EN_MASK))] @
           (if current_dr_role (dwc3 s) = DWC3_GCTL_PRTCAP_HOST \<and> xhci (dwc3 s)
            then [Pm_runtime_resume Xhci_dev]
            else if current_dr_role (dwc3 s) = DWC3_GCTL_PRTCAP_DEVICE
            then [Pm_runtime_resume Dwc_dev]
            else []) \<and>
         snd (dwc3_imx8mp_interrupt irqno s) =
           (dwc_imx8mp_wakeup_disable s)
             \<lparr>calls := calls (snd (dwc3_imx8mp_interrupt irqno s))\<rparr>"
  using assms
  by (simp add: dwc3_imx8mp_interrupt_def pm_runtime_resume_def Let_def calls_disable)

theorem interrupt_suspended_disarms_then_resumes_witness:
  "pm_suspended suspended_device \<and>
   fst (dwc3_imx8mp_interrupt 32 suspended_device) = IRQ_HANDLED \<and>
   calls (snd (dwc3_imx8mp_interrupt 32 suspended_device)) =
     calls suspended_device @ [Readl 0, Writel 0 0, Pm_runtime_resume Dwc_dev] \<and>
   wakeup_ctrl suspended_device = 0x80000012 \<and>
   wakeup_ctrl (snd (dwc3_imx8mp_interrupt 32 suspended_device)) = 0"
  using interrupt_suspended_disarms_then_resumes [of suspended_device 32]
  by (simp add: sample_defs run_defs wakeup_bit_values)

text \<open>
  Claim C3: for every interrupt delivered while the suspended flag is false, the handler
  has no effect: the instance it returns is the one it was given, so no call was made
  (no disarm, no resume request), the control register is unchanged, and so are the
  suspended flag and the clocks.
\<close>

theorem interrupt_not_suspended_no_effect:
  "\<not> pm_suspended s \<Longrightarrow> dwc3_imx8mp_interrupt irqno s = (IRQ_HANDLED, s)"
  by (simp add: dwc3_imx8mp_interrupt_def)

theorem interrupt_not_suspended_no_effect_witness:
  "\<not> pm_suspended active_device \<and>
   dwc3_imx8mp_interrupt 32 active_device = (IRQ_HANDLED, active_device)"
  using interrupt_not_suspended_no_effect [of active_device 32]
  by (simp add: active_device_def)

section \<open>The power state coordinator\<close>

text \<open>
  Claim C4: if enabling the bus clock fails during a resume of a suspended instance, the
  error code is returned to the caller and the suspended flag is left false all the
  same, so a later retry of the resume starts from the not-suspended state.
\<close>

theorem resume_clock_failure_reported:
  "pm_suspended s \<Longrightarrow> rc \<noteq> 0 \<Longrightarrow>
     fst (dwc3_imx8mp_resume rc s msg) = rc \<and>
     \<not> pm_suspended (snd (dwc3_imx8mp_resume rc s msg))"
  by (simp add: dwc3_imx8mp_resume_def clk_prepare_enable_def Let_def pm_suspended_disable)

theorem resume_clock_failure_reported_witness:
  "pm_suspended suspended_device \<and>
   fst (dwc3_imx8mp_resume (- 5) suspended_device PMSG_RESUME) = - 5 \<and>
   \<not> pm_suspended (snd (dwc3_imx8mp_resume (- 5) suspended_device PMSG_RESUME))"
  using resume_clock_failure_reported [of suspended_device "- 5" PMSG_RESUME]
  by (simp add: sample_defs run_defs)

text \<open>
  What the retry then does: it finds the flag false and returns 0 at once, whatever the
  clock framework would answer, without a call; after a failed enable the bus clock is
  still as the suspend left it.
\<close>

lemma resume_retry_is_noop:
  "pm_suspended s \<Longrightarrow>
     dwc3_imx8mp_resume rc' (snd (dwc3_imx8mp_resume rc s msg)) msg' =
       (0, snd (dwc3_imx8mp_resume rc s msg))"
  by (simp add: dwc3_imx8mp_resume_def clk_prepare_enable_def Let_def pm_suspended_disable
      split: prod.splits)

lemma resume_failure_keeps_clock:
  "pm_suspended s \<Longrightarrow> rc \<noteq> 0 \<Longrightarrow>
     bus_clk (snd (dwc3_imx8mp_resume rc s msg)) = bus_clk s"
  by (simp add: dwc3_imx8mp_resume_def clk_prepare_enable_def Let_def
      dwc_imx8mp_wakeup_disable_def readl_def writel_def)

text \<open>
  Claim C8: suspending is idempotent. For every starting instance, a second suspend
  right after a first returns 0 and gives back the instance the first one left:
  register, bus clock and suspended flag are the same, and the second call makes no
  call at all (no arming, no second disable of the bus clock).
\<close>

theorem suspend_idempotent:
  "dwc3_imx8mp_suspend (snd (dwc3_imx8mp_suspend s msg)) msg' =
     (0, snd (dwc3_imx8mp_suspend s msg))"
  using suspend_sets_flag [of s msg]
  by (simp add: dwc3_imx8mp_suspend_def [of "snd (dwc3_imx8mp_suspend s msg)"])

text \<open>
  Claim C10: suspending always returns success. For every starting instance and every
  message the core routine returns 0, and so do both entry points built on it, the
  system-sleep one and the autonomous-idle one, whatever the wake capability.
\<close>

theorem suspend_returns_zero:
  "fst (dwc3_imx8mp_suspend s msg) = 0 \<and>
   fst (dwc3_imx8mp_pm_suspend s) = 0 \<and>
   fst (dwc3_imx8mp_runtime_suspend s) = 0"
  by (simp add: dwc3_imx8mp_suspend_def dwc3_imx8mp_pm_suspend_def
      dwc3_imx8mp_runtime_suspend_def Let_def)

end
